theory Spec2Isabelle
  imports Main "HOL-Library.Char_ord"
begin

section \<open>Diagnostics and exceptions\<close>

text \<open>
  The parser of \<^verbatim>\<open>src/TypeScriptParser.ts\<close> has two effects besides its return value:
  \<^verbatim>\<open>logNodeError\<close> writes a message to \<^verbatim>\<open>console.warn\<close>, and reading a property of
  \<^verbatim>\<open>undefined\<close> throws a \<^verbatim>\<open>TypeError\<close> that nothing in the file catches. A computation
  is therefore a pair: the value it returns (\<open>Inr\<close>) or the exception that ended it
  (\<open>Inl\<close>), and the messages it wrote until then, in the order of writing.
\<close>

datatype error = TypeError string
  \<comment> \<open>the string names the property that was read from \<^verbatim>\<open>undefined\<close>\<close>

type_synonym 'a result = "(error + 'a) \<times> string list"

definition ret :: "'a \<Rightarrow> 'a result" where
  "ret x = (Inr x, [])"

definition throw :: "error \<Rightarrow> 'a result" where
  "throw e = (Inl e, [])"

definition andThen :: "'a result \<Rightarrow> ('a \<Rightarrow> 'b result) \<Rightarrow> 'b result" where
  "andThen m f =
     (case m of
        (Inl e, ds) \<Rightarrow> (Inl e, ds)
      | (Inr x, ds) \<Rightarrow> (case f x of (r, ds') \<Rightarrow> (r, ds @ ds')))"

text \<open>
  \<^verbatim>\<open>xs.map(x => f(x))\<close> runs the calls from left to right and stops at the first one
  that throws: \<open>collect (map f xs)\<close>.
\<close>

fun collect :: "'a result list \<Rightarrow> 'a list result" where
  "collect [] = ret []"
| "collect (m # ms) = andThen m (\<lambda>x. andThen (collect ms) (\<lambda>xs. ret (x # xs)))"

text \<open>A computation that returns, whatever it returns and writes.\<close>

definition isOK :: "'a result \<Rightarrow> bool" where
  "isOK m = (case fst m of Inl _ \<Rightarrow> False | Inr _ \<Rightarrow> True)"

text \<open>
  \<^verbatim>\<open>logNodeError(message, node)\<close> is \<^verbatim>\<open>console.warn(message, node)\<close>. No call in the file
  passes a node, so a diagnostic is its message.
\<close>

definition logNodeError :: "string \<Rightarrow> unit result" where
  "logNodeError message = (Inr (), [message])"

text \<open>
  A slot of the produced schema holds an object, \<^verbatim>\<open>null\<close> or \<^verbatim>\<open>undefined\<close>; the code
  returns \<^verbatim>\<open>undefined\<close> for an absent node and \<^verbatim>\<open>null\<close> for an unsupported one.
\<close>

datatype 'a jsval = Undefined | Null | Obj 'a

section \<open>Strings\<close>

text \<open>
  A \<^typ>\<open>char\<close> is one element of the iteration \<^verbatim>\<open>for (let c of name)\<close>, a code point
  below 256. \<^verbatim>\<open>toLowerCase\<close> moves the letters \<^verbatim>\<open>A\<close> to \<^verbatim>\<open>Z\<close> and the capital letters
  of Latin-1 (192 to 222 without the multiplication sign 215) up by 32.
\<close>

definition toLowerCase_char :: "char \<Rightarrow> char" where
  "toLowerCase_char c =
     (let n = (of_char c :: nat)
      in if (65 \<le> n \<and> n \<le> 90) \<or> (192 \<le> n \<and> n \<le> 222 \<and> n \<noteq> 215)
         then char_of (n + 32) else c)"

definition toLowerCase :: "string \<Rightarrow> string" where
  "toLowerCase s = map toLowerCase_char s"

definition quote :: char where
  "quote = CHR 0x27"

definition dquote :: char where
  "dquote = CHR 0x22"

section \<open>nameToKS\<close>

text \<open>
  One round of the loop of \<^verbatim>\<open>nameToKS\<close> (lines 33 to 38), from the value of \<^verbatim>\<open>result\<close>
  before the round to its value after it.
\<close>

definition nameToKS_step :: "string \<Rightarrow> char \<Rightarrow> string \<Rightarrow> string result" where
  "nameToKS_step name c result =
     (if CHR ''A'' \<le> c \<and> c \<le> CHR ''Z''
      then ret (result @ (if result = [] then [] else ''_'') @ toLowerCase [c])
      else if CHR ''a'' \<le> c \<and> c \<le> CHR ''z'' \<or> c = CHR ''_'' \<or> CHR ''0'' \<le> c \<and> c \<le> CHR ''9''
      then ret (result @ [c])
      else andThen
             (logNodeError (''Invalid character ('' @ [quote, c, quote] @ '') in name: '' @ name @ ''.''))
             (\<lambda>_. ret result))"

fun nameToKS_loop :: "string \<Rightarrow> string \<Rightarrow> string \<Rightarrow> string result" where
  "nameToKS_loop name [] result = ret result"
| "nameToKS_loop name (c # cs) result =
     andThen (nameToKS_step name c result) (nameToKS_loop name cs)"

definition nameToKS :: "string \<Rightarrow> string result" where
  "nameToKS name = nameToKS_loop name name []"

text \<open>
  The description of the walk, to compare with the loop: the characters that are kept,
  each with the piece it contributes to the result, and one message for each character
  that is dropped. A capital letter that is not the first kept character brings an
  underscore before its lower-case form.
\<close>

definition isUpper :: "char \<Rightarrow> bool" where
  "isUpper c \<longleftrightarrow> CHR ''A'' \<le> c \<and> c \<le> CHR ''Z''"

definition isPlain :: "char \<Rightarrow> bool" where
  "isPlain c \<longleftrightarrow>
     CHR ''a'' \<le> c \<and> c \<le> CHR ''z'' \<or> c = CHR ''_'' \<or> CHR ''0'' \<le> c \<and> c \<le> CHR ''9''"

definition invalidCharacter :: "string \<Rightarrow> char \<Rightarrow> string" where
  "invalidCharacter name c =
     ''Invalid character ('' @ [quote, c, quote] @ '') in name: '' @ name @ ''.''"

fun normalize_pieces :: "bool \<Rightarrow> string \<Rightarrow> string" where
  "normalize_pieces first [] = []"
| "normalize_pieces first (c # cs) =
     (if isUpper c then (if first then [] else ''_'') @ [toLowerCase_char c] else [c])
     @ normalize_pieces False cs"

definition normalize_spec :: "string \<Rightarrow> string" where
  "normalize_spec name = normalize_pieces True (filter (\<lambda>c. isUpper c \<or> isPlain c) name)"

definition normalize_diagnostics :: "string \<Rightarrow> string list" where
  "normalize_diagnostics name =
     map (invalidCharacter name) (filter (\<lambda>c. \<not> (isUpper c \<or> isPlain c)) name)"

section \<open>convertTsType\<close>

text \<open>
  A resolved type of the compiler, as \<^verbatim>\<open>convertTsType\<close> reads it: the field
  \<^verbatim>\<open>intrinsicName\<close> (absent on a type that is not intrinsic), the name of its symbol
  (\<open>None\<close> when the type has no symbol) and the field \<^verbatim>\<open>typeArguments\<close>.
\<close>

datatype TsType =
  TsType (intrinsicName: "string option") (symbol_name: "string option")
         (typeArguments: "TsType list option")

datatype PrimitiveType = Int32 | String | Boolean | Void | Array | Class

text \<open>
  A \<^verbatim>\<open>ks.Type\<close> object: the fields \<^verbatim>\<open>type\<close>, \<^verbatim>\<open>className\<close> and \<^verbatim>\<open>typeArguments\<close>, the
  last two \<open>None\<close> when the code does not assign them.
\<close>

datatype KsType =
  KsType (ks_type: PrimitiveType) (ks_className: "string option")
         (ks_typeArguments: "KsType list option")

text \<open>
  Line 46, \<^verbatim>\<open>(<any>tsType).intrinsicName || tsType.symbol.name\<close>: an absent or empty
  intrinsic name is falsy, and then the symbol is read.
\<close>

definition typeText :: "TsType \<Rightarrow> string result" where
  "typeText tsType =
     (case intrinsicName tsType of
        Some s \<Rightarrow> if s \<noteq> [] then ret s
                  else (case symbol_name tsType of
                          None \<Rightarrow> throw (TypeError ''name'') | Some n \<Rightarrow> ret n)
      | None \<Rightarrow> (case symbol_name tsType of
                   None \<Rightarrow> throw (TypeError ''name'') | Some n \<Rightarrow> ret n))"

fun convertTsType :: "TsType \<Rightarrow> KsType result" where
  "convertTsType (TsType intrinsic symb typeArgs) =
     andThen (typeText (TsType intrinsic symb typeArgs)) (\<lambda>text.
       if text = ''number'' then ret (KsType Int32 None None)
       else if text = ''string'' then ret (KsType String None None)
       else if text = ''boolean'' then ret (KsType Boolean None None)
       else if text = ''void'' then ret (KsType Void None None)
       else
         let isArray = (text = ''Array'') in
         andThen (if \<not> isArray then andThen (nameToKS text) (\<lambda>n. ret (Some n))
                  else ret None) (\<lambda>className.
         andThen (case typeArgs of
                    Some args \<Rightarrow>
                      andThen (collect (map (\<lambda>x. convertTsType x) args)) (\<lambda>ts. ret (Some ts))
                  | None \<Rightarrow> ret None) (\<lambda>targs.
         ret (KsType (if isArray then Array else Class) className targs))))"

text \<open>
  A resolved type descriptor has a canonical name, a non-empty intrinsic name or a symbol,
  and so has each of its type arguments.
\<close>

fun resolved :: "TsType \<Rightarrow> bool" where
  "resolved (TsType intrinsic symb typeArgs) =
     (((case intrinsic of Some s \<Rightarrow> s \<noteq> [] | None \<Rightarrow> False) \<or> symb \<noteq> None)
      \<and> (case typeArgs of None \<Rightarrow> True | Some args \<Rightarrow> list_all resolved args))"

text \<open>The parameter of a method or constructor: its name and its resolved type.\<close>

record ParameterDeclaration =
  param_getName :: string
  param_getType :: TsType

record KsMethodParameter =
  param_name :: string
  param_type :: KsType

definition convertParameter :: "ParameterDeclaration \<Rightarrow> KsMethodParameter result" where
  "convertParameter tsParam =
     andThen (nameToKS (param_getName tsParam)) (\<lambda>n.
     andThen (convertTsType (param_getType tsParam)) (\<lambda>t.
     ret \<lparr>param_name = n, param_type = t\<rparr>))"

section \<open>convertExpression\<close>

text \<open>
  An expression node, one constructor for each \<^verbatim>\<open>ts.SyntaxKind\<close> that
  \<^verbatim>\<open>convertExpression\<close> tests, with the children the branch reads. A child that the
  compiler may leave \<^verbatim>\<open>undefined\<close> is an \<open>option\<close>: the argument of an element access and
  the argument list of \<^verbatim>\<open>new\<close>. \<open>OtherExpression k\<close> is a node of any other kind, \<open>k\<close>
  being the name \<^verbatim>\<open>ts.SyntaxKind[tsExpr.kind]\<close>.
\<close>

datatype UnaryOperator =
  PlusPlusToken | MinusMinusToken | PlusToken | MinusToken | TildeToken | ExclamationToken

datatype TsExpression =
    CallExpression TsExpression "TsExpression list"
  | BinaryExpression TsExpression string TsExpression
  | PropertyAccessExpression TsExpression TsExpression
  | ElementAccessExpression TsExpression "TsExpression option"
  | Identifier string
  | NewExpression TsExpression "TsExpression list option"
  | ConditionalExpression TsExpression TsExpression TsExpression
  | StringLiteral string
  | NumericLiteral string
  | FalseKeyword
  | TrueKeyword
  | NullKeyword
  | ParenthesizedExpression TsExpression
  | PostfixUnaryExpression UnaryOperator TsExpression
  | PrefixUnaryExpression UnaryOperator TsExpression
  | ArrayLiteralExpression "TsExpression list"
  | OtherExpression string

text \<open>
  The objects built from \<^verbatim>\<open>ks.ExpressionType\<close>, fields in the order of the object
  literals of the source.
\<close>

datatype KsExpression =
    ks_Call "KsExpression jsval" "KsExpression jsval list"
  | ks_Binary "KsExpression jsval" "KsExpression jsval" string
  | ks_PropertyAccess "KsExpression jsval" "KsExpression jsval"
  | ks_Identifier string
  | ks_New "KsExpression jsval" "KsExpression jsval list"
  | ks_Conditional "KsExpression jsval" "KsExpression jsval" "KsExpression jsval"
  | ks_Literal string string
  | ks_Parenthesized "KsExpression jsval"
  | ks_Unary string "string jsval" "KsExpression jsval"
  | ks_ArrayLiteral "KsExpression jsval list"

definition postfixOperator :: "UnaryOperator \<Rightarrow> string jsval" where
  "postfixOperator operator =
     (if operator = PlusPlusToken then Obj ''++''
      else if operator = MinusMinusToken then Obj ''--'' else Null)"

definition prefixOperator :: "UnaryOperator \<Rightarrow> string jsval" where
  "prefixOperator operator =
     (if operator = PlusPlusToken then Obj ''++''
      else if operator = MinusMinusToken then Obj ''--''
      else if operator = PlusToken then Obj ''+''
      else if operator = MinusToken then Obj ''-''
      else if operator = TildeToken then Obj ''~''
      else if operator = ExclamationToken then Obj ''!'' else Null)"

text \<open>Lines 194 to 205, the last branch: the node's kind is none of those tested.\<close>

definition unexpectedExpression :: "string \<Rightarrow> string" where
  "unexpectedExpression k = ''Unexpected expression kind '' @ [dquote] @ k @ [dquote] @ ''.''"

definition convertOtherKind :: "string \<Rightarrow> KsExpression jsval result" where
  "convertOtherKind kindName =
     (case find (\<lambda>x. toLowerCase kindName = x @ ''keyword'') [''this'', ''super''] of
        Some keyword \<Rightarrow> ret (Obj (ks_Identifier keyword))
      | None \<Rightarrow>
          andThen (logNodeError (unexpectedExpression kindName)) (\<lambda>_. ret Null))"

function convertExpression :: "TsExpression option \<Rightarrow> KsExpression jsval result" where
  "convertExpression None = ret Undefined"
| "convertExpression (Some (CallExpression expression arguments)) =
     andThen (convertExpression (Some expression)) (\<lambda>method.
     andThen (collect (map (\<lambda>arg. convertExpression (Some arg)) arguments)) (\<lambda>args.
     ret (Obj (ks_Call method args))))"
| "convertExpression (Some (BinaryExpression left operatorToken right)) =
     andThen (convertExpression (Some left)) (\<lambda>l.
     andThen (convertExpression (Some right)) (\<lambda>r.
     ret (Obj (ks_Binary l r operatorToken))))"
| "convertExpression (Some (PropertyAccessExpression expression name)) =
     andThen (convertExpression (Some expression)) (\<lambda>object.
     andThen (convertExpression (Some name)) (\<lambda>propertyName.
     ret (Obj (ks_PropertyAccess object propertyName))))"
| "convertExpression (Some (ElementAccessExpression expression argumentExpression)) =
     andThen (convertExpression (Some expression)) (\<lambda>object.
     andThen (convertExpression argumentExpression) (\<lambda>propertyName.
     ret (Obj (ks_PropertyAccess object propertyName))))"
| "convertExpression (Some (Identifier text)) = ret (Obj (ks_Identifier text))"
| "convertExpression (Some (NewExpression expression arguments)) =
     andThen (convertExpression (Some expression)) (\<lambda>cls.
     andThen (case arguments of
                None \<Rightarrow> throw (TypeError ''map'')
              | Some as \<Rightarrow> collect (map (\<lambda>arg. convertExpression (Some arg)) as)) (\<lambda>args.
     ret (Obj (ks_New cls args))))"
| "convertExpression (Some (ConditionalExpression condition whenTrue whenFalse)) =
     andThen (convertExpression (Some condition)) (\<lambda>c.
     andThen (convertExpression (Some whenTrue)) (\<lambda>t.
     andThen (convertExpression (Some whenFalse)) (\<lambda>f.
     ret (Obj (ks_Conditional c t f)))))"
| "convertExpression (Some (StringLiteral text)) = ret (Obj (ks_Literal ''string'' text))"
| "convertExpression (Some (NumericLiteral text)) = ret (Obj (ks_Literal ''numeric'' text))"
| "convertExpression (Some FalseKeyword) = ret (Obj (ks_Literal ''boolean'' ''false''))"
| "convertExpression (Some TrueKeyword) = ret (Obj (ks_Literal ''boolean'' ''true''))"
| "convertExpression (Some NullKeyword) = ret (Obj (ks_Literal ''null'' ''null''))"
| "convertExpression (Some (ParenthesizedExpression expression)) =
     andThen (convertExpression (Some expression)) (\<lambda>e. ret (Obj (ks_Parenthesized e)))"
| "convertExpression (Some (PostfixUnaryExpression operator operand)) =
     andThen (convertExpression (Some operand)) (\<lambda>e.
     ret (Obj (ks_Unary ''postfix'' (postfixOperator operator) e)))"
| "convertExpression (Some (PrefixUnaryExpression operator operand)) =
     andThen (convertExpression (Some operand)) (\<lambda>e.
     ret (Obj (ks_Unary ''prefix'' (prefixOperator operator) e)))"
| "convertExpression (Some (ArrayLiteralExpression elements)) =
     andThen (collect (map (\<lambda>x. convertExpression (Some x)) elements)) (\<lambda>items.
     ret (Obj (ks_ArrayLiteral items)))"
| "convertExpression (Some (OtherExpression kindName)) = convertOtherKind kindName"
  by pat_completeness auto
termination
proof -
  have est: "\<And>(x::TsExpression) xs. x \<in> set xs \<Longrightarrow> size x \<le> size_list size xs"
    by (simp add: size_list_estimation')
  show ?thesis
    by (relation "measure (\<lambda>e. case e of None \<Rightarrow> 0 | Some x \<Rightarrow> size x)")
       (auto split: option.splits simp: less_Suc_eq_le dest!: est)
qed








section \<open>convertStatement and convertBlock\<close>

text \<open>
  A variable declaration is read through \<^verbatim>\<open>name.getText()\<close> and \<^verbatim>\<open>initializer\<close>. The
  initializer of a loop is a declaration list or a node of another kind, of which the
  code reads the kind only (\<open>OtherInitializer k\<close>, \<open>k\<close> the name of the kind).
\<close>

datatype VariableDeclaration =
  VariableDeclaration (decl_name: string) (decl_initializer: "TsExpression option")

datatype ForInitializer =
    VariableDeclarationList "VariableDeclaration list"
  | OtherInitializer string

text \<open>
  A statement node. \<open>Block\<close> is the only statement with a \<^verbatim>\<open>statements\<close> property;
  \<open>OtherStatement k\<close> is a statement of any kind that \<^verbatim>\<open>convertStatement\<close> does not test
  and that has no such property, \<open>k\<close> being the name of its kind. The optional children
  are those the compiler may leave \<^verbatim>\<open>undefined\<close>.
\<close>

datatype TsStatement =
    IfStatement TsExpression TsStatement "TsStatement option"
  | ReturnStatement "TsExpression option"
  | ThrowStatement "TsExpression option"
  | ExpressionStatement TsExpression
  | VariableStatement "VariableDeclaration list"
  | WhileStatement TsExpression TsStatement
  | ForOfStatement ForInitializer TsExpression TsStatement
  | ForStatement "ForInitializer option" "TsExpression option" "TsExpression option" TsStatement
  | Block "TsStatement list"
  | OtherStatement string

datatype KsVariableDeclaration =
  ks_VariableDeclaration (ks_variableName: string) (ks_initializer: "KsExpression jsval")

text \<open>
  The objects built from \<^verbatim>\<open>ks.StatementType\<close>. The field \<^verbatim>\<open>statements\<close> of a block
  holds what \<^verbatim>\<open>convertStatement\<close> returned: an array, or \<^verbatim>\<open>undefined\<close> (\<open>None\<close>).
\<close>

datatype KsStatement =
    ks_If "KsExpression jsval" "KsBlock jsval" "KsBlock jsval"
  | ks_Return "KsExpression jsval"
  | ks_Throw "KsExpression jsval"
  | ks_Expression "KsExpression jsval"
  | ks_Variable KsVariableDeclaration
  | ks_While "KsExpression jsval" "KsBlock jsval"
  | ks_Foreach "KsVariableDeclaration jsval" "KsExpression jsval" "KsBlock jsval"
  | ks_For "KsVariableDeclaration jsval" "KsExpression jsval" "KsExpression jsval" "KsBlock jsval"
and KsBlock =
    KsBlock (statements: "KsStatement jsval list option")

definition convertVariableDeclaration ::
  "VariableDeclaration option \<Rightarrow> KsVariableDeclaration result" where
  "convertVariableDeclaration varDecl =
     (case varDecl of
        None \<Rightarrow> throw (TypeError ''name'')
      | Some (VariableDeclaration name init) \<Rightarrow>
          andThen (convertExpression init) (\<lambda>i. ret (ks_VariableDeclaration name i)))"

text \<open>\<^verbatim>\<open>xs[i]\<close> is \<^verbatim>\<open>undefined\<close> beyond the end of the array.\<close>

definition index :: "'a list \<Rightarrow> nat \<Rightarrow> 'a option" where
  "index xs i = (if i < length xs then Some (xs ! i) else None)"

definition convertInitializer ::
  "ForInitializer option \<Rightarrow> KsVariableDeclaration jsval result" where
  "convertInitializer initializer =
     (case initializer of
        None \<Rightarrow> throw (TypeError ''kind'')
      | Some (VariableDeclarationList declarations) \<Rightarrow>
          andThen (if length declarations \<noteq> 1
                   then logNodeError ''Multiple declarations are not supported as for of initializers.''
                   else ret ()) (\<lambda>_.
          andThen (convertVariableDeclaration (index declarations 0)) (\<lambda>itemVariable.
          ret (Obj itemVariable)))
      | Some (OtherInitializer kindName) \<Rightarrow>
          andThen (logNodeError (kindName @ '' is not supported yet as for of initializer.''))
                  (\<lambda>_. ret Undefined))"

text \<open>
  Line 292, \<^verbatim>\<open>return ksStmts || [ksStmt]\<close>: an array is truthy, also an empty one, and
  \<^verbatim>\<open>null\<close> is not.
\<close>

definition returnStmts ::
  "KsStatement jsval list jsval \<Rightarrow> KsStatement jsval \<Rightarrow> KsStatement jsval list option" where
  "returnStmts ksStmts ksStmt = Some (case ksStmts of Obj a \<Rightarrow> a | _ \<Rightarrow> [ksStmt])"

text \<open>
  Line 7, \<^verbatim>\<open>[].concat.apply([], arrays)\<close>: \<^verbatim>\<open>concat\<close> spreads an argument that is an array
  and appends any other argument as one element.
\<close>

definition flattenArray :: "'a jsval list option list \<Rightarrow> 'a jsval list" where
  "flattenArray arrays = concat (map (\<lambda>a. case a of Some xs \<Rightarrow> xs | None \<Rightarrow> [Undefined]) arrays)"

definition kindName_of :: "TsStatement \<Rightarrow> string" where
  "kindName_of s =
     (case s of
        IfStatement _ _ _ \<Rightarrow> ''IfStatement''
      | ReturnStatement _ \<Rightarrow> ''ReturnStatement''
      | ThrowStatement _ \<Rightarrow> ''ThrowStatement''
      | ExpressionStatement _ \<Rightarrow> ''ExpressionStatement''
      | VariableStatement _ \<Rightarrow> ''VariableStatement''
      | WhileStatement _ _ \<Rightarrow> ''WhileStatement''
      | ForOfStatement _ _ _ \<Rightarrow> ''ForOfStatement''
      | ForStatement _ _ _ _ \<Rightarrow> ''ForStatement''
      | Block _ \<Rightarrow> ''Block''
      | OtherStatement k \<Rightarrow> k)"

text \<open>
  The statements outside the grammar of \<^verbatim>\<open>convertStatement\<close>: those that reach its last
  \<^verbatim>\<open>else\<close>. \<open>hasStatements\<close> is the test \<^verbatim>\<open>"statements" in tsBlock\<close> of line 298.
\<close>

definition unsupportedStatement :: "TsStatement \<Rightarrow> bool" where
  "unsupportedStatement s =
     (case s of Block _ \<Rightarrow> True | OtherStatement _ \<Rightarrow> True | _ \<Rightarrow> False)"

definition hasStatements :: "TsStatement \<Rightarrow> bool" where
  "hasStatements s = (case s of Block _ \<Rightarrow> True | _ \<Rightarrow> False)"

definition unexpectedStatement :: "string \<Rightarrow> string" where
  "unexpectedStatement k = ''Unexpected statement kind '' @ [dquote] @ k @ [dquote] @ ''.''"

function convertStatement :: "TsStatement option \<Rightarrow> KsStatement jsval list option result"
  and convertBlock :: "TsStatement option \<Rightarrow> KsBlock jsval result" where
  "convertStatement None = ret None"
| "convertStatement (Some (IfStatement expression thenStatement elseStatement)) =
     andThen (convertExpression (Some expression)) (\<lambda>condition.
     andThen (convertBlock (Some thenStatement)) (\<lambda>thenBlock.
     andThen (convertBlock elseStatement) (\<lambda>elseBlock.
     ret (returnStmts Null (Obj (ks_If condition thenBlock elseBlock))))))"
| "convertStatement (Some (ReturnStatement expression)) =
     andThen (convertExpression expression) (\<lambda>e.
     ret (returnStmts Null (Obj (ks_Return e))))"
| "convertStatement (Some (ThrowStatement expression)) =
     andThen (convertExpression expression) (\<lambda>e.
     ret (returnStmts Null (Obj (ks_Throw e))))"
| "convertStatement (Some (ExpressionStatement expression)) =
     andThen (convertExpression (Some expression)) (\<lambda>e.
     ret (returnStmts Null (Obj (ks_Expression e))))"
| "convertStatement (Some (VariableStatement declarations)) =
     andThen (collect (map (\<lambda>x. convertVariableDeclaration (Some x)) declarations)) (\<lambda>ksStmts.
     ret (returnStmts (Obj (map (\<lambda>v. Obj (ks_Variable v)) ksStmts)) Null))"
| "convertStatement (Some (WhileStatement expression statement)) =
     andThen (convertExpression (Some expression)) (\<lambda>condition.
     andThen (convertBlock (Some statement)) (\<lambda>body.
     ret (returnStmts Null (Obj (ks_While condition body)))))"
| "convertStatement (Some (ForOfStatement initializer expression statement)) =
     andThen (convertInitializer (Some initializer)) (\<lambda>itemVariable.
     andThen (convertExpression (Some expression)) (\<lambda>items.
     andThen (convertBlock (Some statement)) (\<lambda>body.
     ret (returnStmts Null (Obj (ks_Foreach itemVariable items body))))))"
| "convertStatement (Some (ForStatement initializer condition incrementor statement)) =
     andThen (convertInitializer initializer) (\<lambda>itemVariable.
     andThen (convertExpression condition) (\<lambda>c.
     andThen (convertExpression incrementor) (\<lambda>i.
     andThen (convertBlock (Some statement)) (\<lambda>body.
     ret (returnStmts Null (Obj (ks_For itemVariable c i body)))))))"
| "convertStatement (Some (Block stmts)) =
     andThen (logNodeError (unexpectedStatement (kindName_of (Block stmts)))) (\<lambda>_.
     ret (returnStmts Null Null))"
| "convertStatement (Some (OtherStatement k)) =
     andThen (logNodeError (unexpectedStatement (kindName_of (OtherStatement k)))) (\<lambda>_.
     ret (returnStmts Null Null))"
| "convertBlock None = ret Undefined"
| "convertBlock (Some (Block stmts)) =
     andThen (collect (map (\<lambda>x. convertStatement (Some x)) stmts)) (\<lambda>arrays.
     ret (Obj (KsBlock (Some (flattenArray arrays)))))"
| "convertBlock (Some (IfStatement e t f)) =
     andThen (convertStatement (Some (IfStatement e t f))) (\<lambda>stmts. ret (Obj (KsBlock stmts)))"
| "convertBlock (Some (ReturnStatement e)) =
     andThen (convertStatement (Some (ReturnStatement e))) (\<lambda>stmts. ret (Obj (KsBlock stmts)))"
| "convertBlock (Some (ThrowStatement e)) =
     andThen (convertStatement (Some (ThrowStatement e))) (\<lambda>stmts. ret (Obj (KsBlock stmts)))"
| "convertBlock (Some (ExpressionStatement e)) =
     andThen (convertStatement (Some (ExpressionStatement e))) (\<lambda>stmts. ret (Obj (KsBlock stmts)))"
| "convertBlock (Some (VariableStatement ds)) =
     andThen (convertStatement (Some (VariableStatement ds))) (\<lambda>stmts. ret (Obj (KsBlock stmts)))"
| "convertBlock (Some (WhileStatement e b)) =
     andThen (convertStatement (Some (WhileStatement e b))) (\<lambda>stmts. ret (Obj (KsBlock stmts)))"
| "convertBlock (Some (ForOfStatement i e b)) =
     andThen (convertStatement (Some (ForOfStatement i e b))) (\<lambda>stmts. ret (Obj (KsBlock stmts)))"
| "convertBlock (Some (ForStatement i c n b)) =
     andThen (convertStatement (Some (ForStatement i c n b))) (\<lambda>stmts. ret (Obj (KsBlock stmts)))"
| "convertBlock (Some (OtherStatement k)) =
     andThen (convertStatement (Some (OtherStatement k))) (\<lambda>stmts. ret (Obj (KsBlock stmts)))"
  by pat_completeness auto
termination
proof -
  have est: "\<And>(x::TsStatement) xs. x \<in> set xs \<Longrightarrow> size x \<le> size_list size xs"
    by (simp add: size_list_estimation')
  show ?thesis
    by (relation "measure (\<lambda>a. case a of
                     Inl s \<Rightarrow> 2 * (case s of None \<Rightarrow> 0 | Some x \<Rightarrow> size x)
                   | Inr b \<Rightarrow> 2 * (case b of None \<Rightarrow> 0 | Some x \<Rightarrow> size x) + 1)")
       (auto split: option.splits dest!: est)
qed






section \<open>createSchemaFromSourceFile\<close>

text \<open>
  The declarations of a source file as the wrapper library hands them over, each record
  holding what the code asks of it. \<open>prop_class\<close> is the outcome of the two \<^verbatim>\<open>instanceof\<close>
  tests of line 317, \<open>prop_getInitializer\<close> the text of the initializer when there is
  one, and a body is the block node behind \<^verbatim>\<open>getBody().compilerNode\<close>, \<open>None\<close> when
  \<^verbatim>\<open>getBody()\<close> is \<^verbatim>\<open>undefined\<close>.
\<close>

datatype Scope = Public | Protected | Private

datatype PropertyClass = IsPropertyDeclaration | IsParameterDeclaration | IsOtherDeclaration

record InstanceProperty =
  prop_class :: PropertyClass
  prop_getName :: string
  prop_getType :: TsType
  prop_getScope :: Scope
  prop_getInitializer :: "string option"

record MethodDeclaration =
  method_getName :: string
  method_getReturnType :: TsType
  method_getParameters :: "ParameterDeclaration list"
  method_getBody :: "TsStatement option"

record ConstructorDeclaration =
  ctor_getParameters :: "ParameterDeclaration list"
  ctor_getBody :: "TsStatement option"

record ClassDeclaration =
  class_getName :: string
  class_getInstanceProperties :: "InstanceProperty list"
  class_getInstanceMethods :: "MethodDeclaration list"
  class_getConstructors :: "ConstructorDeclaration list"

record EnumDeclaration =
  enum_getName :: string
  enum_getMembers :: "string list"

record SourceFile =
  getEnums :: "EnumDeclaration list"
  getClasses :: "ClassDeclaration list"

text \<open>The schema: the objects of \<^verbatim>\<open>KSLangSchema\<close> that the function fills.\<close>

datatype Visibility = ks_Public | ks_Protected | ks_Private

record KsField =
  field_type :: KsType
  field_visibility :: Visibility
  field_defaultValue :: "string option"

record KsMethod =
  method_returns :: KsType
  method_parameters :: "KsMethodParameter list"
  method_body :: "KsBlock jsval"

record KsConstructor =
  ctor_parameters :: "KsMethodParameter list"
  ctor_body :: "KsBlock jsval"

record KsClass =
  class_fields :: "string \<rightharpoonup> KsField"
  class_methods :: "string \<rightharpoonup> KsMethod"
  class_constructor :: "KsConstructor option"

record KsEnum =
  enum_values :: "string list"

record SchemaFile =
  enums :: "string \<rightharpoonup> KsEnum"
  classes :: "string \<rightharpoonup> KsClass"

text \<open>
  \<^verbatim>\<open>obj[key] = value\<close> on an object that an object literal created, the value being an
  object: it stores the value under the key, except for the key \<^verbatim>\<open>__proto__\<close>, the accessor
  that \<^verbatim>\<open>Object.prototype\<close> provides; an assignment to it replaces the prototype of the
  object and adds no property of its own.
\<close>

definition setProperty :: "(string \<rightharpoonup> 'v) \<Rightarrow> string \<Rightarrow> 'v \<Rightarrow> (string \<rightharpoonup> 'v)" where
  "setProperty obj key v = (if key = ''__proto__'' then obj else obj(key \<mapsto> v))"

text \<open>A \<^verbatim>\<open>for ... of\<close> loop over a list, its body updating the object under construction.\<close>

fun forEach :: "'a list \<Rightarrow> ('a \<Rightarrow> 's \<Rightarrow> 's result) \<Rightarrow> 's \<Rightarrow> 's result" where
  "forEach [] body s = ret s"
| "forEach (x # xs) body s = andThen (body x s) (forEach xs body)"

text \<open>\<^verbatim>\<open>convertBlock(<ts.BlockLike> x.getBody().compilerNode)\<close>, lines 336 and 343.\<close>

definition convertBody :: "TsStatement option \<Rightarrow> KsBlock jsval result" where
  "convertBody body =
     (case body of
        None \<Rightarrow> throw (TypeError ''compilerNode'')
      | Some node \<Rightarrow> convertBlock (Some node))"

text \<open>Lines 308 to 310, the body of the loop over the enums.\<close>

definition createSchema_enum :: "EnumDeclaration \<Rightarrow> SchemaFile \<Rightarrow> SchemaFile result" where
  "createSchema_enum tsEnum schema =
     andThen (nameToKS (enum_getName tsEnum)) (\<lambda>key.
     andThen (collect (map (\<lambda>tsEnumMember. nameToKS tsEnumMember) (enum_getMembers tsEnum))) (\<lambda>vs.
     ret (schema\<lparr>enums := setProperty (enums schema) key \<lparr>enum_values = vs\<rparr>\<rparr>)))"

text \<open>Lines 317 to 329, the body of the loop over the instance properties.\<close>

definition createSchema_field :: "InstanceProperty \<Rightarrow> KsClass \<Rightarrow> KsClass result" where
  "createSchema_field tsProp classSchema =
     (if prop_class tsProp \<noteq> IsPropertyDeclaration \<and> prop_class tsProp \<noteq> IsParameterDeclaration
      then ret classSchema
      else
        andThen (nameToKS (prop_getName tsProp)) (\<lambda>key.
        andThen (convertTsType (prop_getType tsProp)) (\<lambda>t.
        ret (classSchema\<lparr>class_fields := setProperty (class_fields classSchema) key
               \<lparr>field_type = t,
                field_visibility =
                  (if prop_getScope tsProp = Public then ks_Public
                   else if prop_getScope tsProp = Protected then ks_Protected
                   else ks_Private),
                field_defaultValue = prop_getInitializer tsProp\<rparr>\<rparr>))))"

text \<open>Lines 333 to 336, the body of the loop over the instance methods.\<close>

definition createSchema_method :: "MethodDeclaration \<Rightarrow> KsClass \<Rightarrow> KsClass result" where
  "createSchema_method tsMethod classSchema =
     andThen (nameToKS (method_getName tsMethod)) (\<lambda>key.
     andThen (convertTsType (method_getReturnType tsMethod)) (\<lambda>returns.
     andThen (collect (map (\<lambda>tsParam. convertParameter tsParam) (method_getParameters tsMethod)))
       (\<lambda>parameters.
     andThen (convertBody (method_getBody tsMethod)) (\<lambda>body.
     ret (classSchema\<lparr>class_methods := setProperty (class_methods classSchema) key
            \<lparr>method_returns = returns, method_parameters = parameters,
             method_body = body\<rparr>\<rparr>)))))"

text \<open>Lines 339 to 344.\<close>

definition createSchema_constructor ::
  "ConstructorDeclaration list \<Rightarrow> KsClass \<Rightarrow> KsClass result" where
  "createSchema_constructor constructors classSchema =
     (if length constructors > 0
      then
        andThen (collect (map (\<lambda>tsParam. convertParameter tsParam)
                            (ctor_getParameters (constructors ! 0)))) (\<lambda>parameters.
        andThen (convertBody (ctor_getBody (constructors ! 0))) (\<lambda>body.
        ret (classSchema\<lparr>class_constructor :=
               Some \<lparr>ctor_parameters = parameters, ctor_body = body\<rparr>\<rparr>)))
      else ret classSchema)"

text \<open>
  Lines 314 to 344 on the class object, which line 314 also assigns to the property of
  \<^verbatim>\<open>schema.classes\<close> named by the normalized name of the class.
\<close>

definition createSchema_classSchema :: "ClassDeclaration \<Rightarrow> KsClass result" where
  "createSchema_classSchema tsClass =
     andThen (forEach (class_getInstanceProperties tsClass) createSchema_field
                \<lparr>class_fields = Map.empty, class_methods = Map.empty, class_constructor = None\<rparr>)
       (\<lambda>classSchema.
     andThen (forEach (class_getInstanceMethods tsClass) createSchema_method classSchema)
       (\<lambda>classSchema.
     createSchema_constructor (class_getConstructors tsClass) classSchema))"

definition createSchema_class :: "ClassDeclaration \<Rightarrow> SchemaFile \<Rightarrow> SchemaFile result" where
  "createSchema_class tsClass schema =
     andThen (nameToKS (class_getName tsClass)) (\<lambda>key.
     andThen (createSchema_classSchema tsClass) (\<lambda>classSchema.
     ret (schema\<lparr>classes := setProperty (classes schema) key classSchema\<rparr>)))"

definition createSchemaFromSourceFile :: "SourceFile \<Rightarrow> SchemaFile result" where
  "createSchemaFromSourceFile typeInfo =
     andThen (forEach (getEnums typeInfo) createSchema_enum
                \<lparr>enums = Map.empty, classes = Map.empty\<rparr>) (\<lambda>schema.
     forEach (getClasses typeInfo) createSchema_class schema)"

section \<open>Laws of the computations\<close>

lemma andThen_ret [simp]: "andThen (ret x) f = f x"
  by (cases "f x") (simp add: andThen_def ret_def)

lemma andThen_ret_right [simp]: "andThen m ret = m"
  by (cases m) (auto simp: andThen_def ret_def split: sum.splits)

lemma andThen_throw [simp]: "andThen (throw e) f = throw e"
  by (simp add: andThen_def throw_def)

lemma andThen_assoc: "andThen (andThen m f) g = andThen m (\<lambda>x. andThen (f x) g)"
  by (cases m) (auto simp: andThen_def split: sum.splits prod.splits)

lemma andThen_Inr: "andThen (Inr x, ds) f = (fst (f x), ds @ snd (f x))"
  by (cases "f x") (simp add: andThen_def)

lemma andThen_Inl [simp]: "andThen (Inl e, ds) f = (Inl e, ds)"
  by (simp add: andThen_def)

section \<open>Name normalization\<close>

lemma isPlain_not_isUpper: "isPlain c \<Longrightarrow> \<not> isUpper c"
  by (auto simp: isPlain_def isUpper_def less_eq_char_def)

lemma isPlain_toLowerCase: "isUpper c \<Longrightarrow> isPlain (toLowerCase_char c)"
  by (auto simp: isPlain_def isUpper_def less_eq_char_def toLowerCase_char_def Let_def)

lemma isPlain_underscore: "isPlain CHR ''_''"
  by (simp add: isPlain_def)

lemma nameToKS_step_cases:
  "nameToKS_step n c r =
     (if isUpper c then (Inr (r @ (if r = [] then [] else ''_'') @ [toLowerCase_char c]), [])
      else if isPlain c then (Inr (r @ [c]), [])
      else (Inr r, [invalidCharacter n c]))"
  by (simp add: nameToKS_step_def isUpper_def isPlain_def invalidCharacter_def ret_def
      logNodeError_def andThen_def toLowerCase_def del: less_eq_char_simp)

text \<open>
  The loop, started with any \<open>result\<close>, appends the pieces of the kept characters; the
  next capital letter begins the result exactly when \<open>result\<close> is still empty.
\<close>

lemma nameToKS_loop_spec:
  "nameToKS_loop n cs r =
     (Inr (r @ normalize_pieces (r = []) (filter (\<lambda>c. isUpper c \<or> isPlain c) cs)),
      map (invalidCharacter n) (filter (\<lambda>c. \<not> (isUpper c \<or> isPlain c)) cs))"
proof (induction cs arbitrary: r)
  case Nil
  show ?case by (simp add: ret_def)
next
  case (Cons c cs)
  show ?case
    by (simp add: nameToKS_step_cases andThen_Inr Cons.IH isPlain_not_isUpper)
qed

lemma nameToKS_eq: "nameToKS name = (Inr (normalize_spec name), normalize_diagnostics name)"
  by (simp add: nameToKS_def nameToKS_loop_spec normalize_spec_def normalize_diagnostics_def)

lemma normalize_pieces_plain:
  "\<forall>c\<in>set cs. isUpper c \<or> isPlain c \<Longrightarrow> \<forall>c\<in>set (normalize_pieces b cs). isPlain c"
  by (induction cs arbitrary: b) (auto simp: isPlain_toLowerCase isPlain_underscore)

lemma normalize_pieces_id:
  "\<forall>c\<in>set cs. isPlain c \<Longrightarrow> normalize_pieces b cs = cs"
  by (induction cs arbitrary: b) (auto simp: isPlain_not_isUpper)

lemma normalize_spec_plain: "\<forall>c\<in>set (normalize_spec x). isPlain c"
  unfolding normalize_spec_def by (rule normalize_pieces_plain) simp

lemma filter_plain_keep:
  "\<forall>c\<in>set y. isPlain c \<Longrightarrow> filter (\<lambda>c. isUpper c \<or> isPlain c) y = y"
  by (induction y) auto

lemma filter_plain_drop:
  "\<forall>c\<in>set y. isPlain c \<Longrightarrow> filter (\<lambda>c. \<not> isUpper c \<and> \<not> isPlain c) y = []"
  by (induction y) auto

lemma nameToKS_plain:
  assumes p: "\<forall>c\<in>set y. isPlain c"
  shows "nameToKS y = (Inr y, [])"
  by (simp add: nameToKS_def nameToKS_loop_spec filter_plain_keep[OF p] filter_plain_drop[OF p]
      normalize_pieces_id[OF p])

text \<open>
  Claim C2. Name normalization is idempotent: \<^verbatim>\<open>nameToKS\<close> returns a name for every
  input, and on the name it returned it returns that name again, with no diagnostic.
\<close>

theorem nameToKS_idempotent:
  "\<exists>y ds. nameToKS x = (Inr y, ds) \<and> nameToKS y = (Inr y, [])"
proof -
  have "nameToKS x = (Inr (normalize_spec x), normalize_diagnostics x)"
    by (rule nameToKS_eq)
  moreover have "nameToKS (normalize_spec x) = (Inr (normalize_spec x), [])"
    by (rule nameToKS_plain) (rule normalize_spec_plain)
  ultimately show ?thesis by blast
qed

text \<open>
  Claim C3. \<^verbatim>\<open>nameToKS\<close> walks the name character by character: a capital letter is
  lowercased and, unless it begins the result, preceded by an underscore; lowercase
  letters, digits and the underscore pass through unchanged; any other character is
  dropped with one diagnostic that quotes it and the name. The three names of the
  specification normalize as it says.
\<close>

theorem nameToKS_walk:
  "nameToKS name = (Inr (normalize_spec name), normalize_diagnostics name)
   \<and> nameToKS ''MyClass'' = (Inr ''my_class'', [])
   \<and> nameToKS ''fieldName'' = (Inr ''field_name'', [])
   \<and> nameToKS ''thing2'' = (Inr ''thing2'', [])"
proof -
  have "nameToKS name = (Inr (normalize_spec name), normalize_diagnostics name)"
    by (rule nameToKS_eq)
  moreover have "nameToKS ''MyClass'' = (Inr ''my_class'', [])" by code_simp
  moreover have "nameToKS ''fieldName'' = (Inr ''field_name'', [])" by code_simp
  moreover have "nameToKS ''thing2'' = (Inr ''thing2'', [])" by code_simp
  ultimately show ?thesis by blast
qed

section \<open>Type lowering\<close>

lemma collect_Inr:
  "collect ms = (Inr xs, ds) \<Longrightarrow>
     length xs = length ms \<and> (\<forall>i<length ms. fst (ms ! i) = Inr (xs ! i)) \<and> ds = concat (map snd ms)"
proof (induction ms arbitrary: xs ds)
  case Nil
  then show ?case by (simp add: ret_def)
next
  case (Cons m ms)
  obtain r d where m: "m = (r, d)" by (cases m)
  show ?case
  proof (cases r)
    case (Inl e)
    with Cons.prems m show ?thesis by simp
  next
    case (Inr x)
    obtain r' d' where c: "collect ms = (r', d')" by (cases "collect ms")
    show ?thesis
    proof (cases r')
      case (Inl e)
      with Cons.prems m Inr c show ?thesis by (simp add: andThen_Inr)
    next
      case (Inr ys)
      note Inr' = this
      from Cons.IH[of ys d'] c Inr'
      have ih: "length ys = length ms" "\<forall>i<length ms. fst (ms ! i) = Inr (ys ! i)"
        "d' = concat (map snd ms)" by simp_all
      from Cons.prems m \<open>r = Inr x\<close> c Inr' have xs: "xs = x # ys" and ds: "ds = d @ d'"
        by (simp_all add: andThen_Inr ret_def)
      show ?thesis using ih xs ds m \<open>r = Inr x\<close>
        by (auto simp: nth_Cons split: nat.splits)
    qed
  qed
qed

lemma collect_ok:
  "\<forall>m\<in>set ms. \<exists>x ds. m = (Inr x, ds) \<Longrightarrow> \<exists>xs ds. collect ms = (Inr xs, ds)"
proof (induction ms)
  case Nil
  show ?case by (simp add: ret_def)
next
  case (Cons m ms)
  then obtain x d where m: "m = (Inr x, d)" by auto
  from Cons obtain xs ds where c: "collect ms = (Inr xs, ds)" by auto
  show ?case by (simp add: m c andThen_Inr ret_def)
qed

lemma typeText_resolved:
  "resolved t \<Longrightarrow> \<exists>n. typeText t = ret n"
  by (cases t) (auto simp: typeText_def split: option.splits)

lemma TsType_args_induct [case_names TsType]:
  assumes "\<And>intrinsic symb typeArgs.
             (\<And>args a. typeArgs = Some args \<Longrightarrow> a \<in> set args \<Longrightarrow> P a)
             \<Longrightarrow> P (TsType intrinsic symb typeArgs)"
  shows "P t"
proof (induction t rule: convertTsType.induct)
  case (1 intrinsic symb typeArgs)
  show ?case
  proof (rule assms)
    fix args a
    assume "typeArgs = Some args" "a \<in> set args"
    then show "P a" using "1.IH"[of "''X''" False args a] by simp
  qed
qed

lemma convertTsType_primitive:
  "typeText t = ret n \<Longrightarrow>
     convertTsType t =
       (if n = ''number'' then ret (KsType Int32 None None)
        else if n = ''string'' then ret (KsType String None None)
        else if n = ''boolean'' then ret (KsType Boolean None None)
        else if n = ''void'' then ret (KsType Void None None)
        else andThen (if n \<noteq> ''Array'' then andThen (nameToKS n) (\<lambda>n. ret (Some n))
                      else ret None) (\<lambda>className.
             andThen (case typeArguments t of
                        Some args \<Rightarrow>
                          andThen (collect (map convertTsType args)) (\<lambda>ts. ret (Some ts))
                      | None \<Rightarrow> ret None) (\<lambda>targs.
             ret (KsType (if n = ''Array'' then Array else Class) className targs))))"
  by (cases t) (simp add: Let_def)

lemma convertTsType_total: "resolved t \<Longrightarrow> \<exists>r ds. convertTsType t = (Inr r, ds)"
proof (induction t rule: TsType_args_induct)
  case (TsType intrinsic symb typeArgs)
  let ?t = "TsType intrinsic symb typeArgs"
  from typeText_resolved[OF TsType.prems] obtain n where n: "typeText ?t = ret n" by blast
  have args: "\<exists>ta da. (case typeArgs of
                    Some args \<Rightarrow>
                      andThen (collect (map convertTsType args)) (\<lambda>ts. ret (Some ts))
                  | None \<Rightarrow> ret None) = (Inr ta, da)"
  proof (cases typeArgs)
    case None
    then show ?thesis by (simp add: ret_def)
  next
    case (Some args)
    have "\<forall>m\<in>set (map convertTsType args). \<exists>x ds. m = (Inr x, ds)"
    proof
      fix m assume "m \<in> set (map convertTsType args)"
      then obtain a where a: "a \<in> set args" "m = convertTsType a" by auto
      have "resolved a" using TsType.prems Some a(1) by (auto simp: list_all_iff)
      from TsType.IH[OF Some a(1) this] a(2) show "\<exists>x ds. m = (Inr x, ds)" by simp
    qed
    from collect_ok[OF this] obtain xs ds
      where "collect (map convertTsType args) = (Inr xs, ds)" by blast
    then show ?thesis using Some by (simp add: andThen_Inr ret_def)
  qed
  then obtain ta da where ta: "(case typeArgs of
                    Some args \<Rightarrow>
                      andThen (collect (map convertTsType args)) (\<lambda>ts. ret (Some ts))
                  | None \<Rightarrow> ret None) = (Inr ta, da)" by blast
  show ?case
    unfolding convertTsType_primitive[OF n]
    using ta by (simp add: ret_def andThen_Inr nameToKS_eq)
qed


lemma andThen_eq_Inr:
  assumes "andThen m f = (Inr y, ds)"
  obtains x d1 d2 where "m = (Inr x, d1)" "f x = (Inr y, d2)" "ds = d1 @ d2"
proof -
  obtain r d1 where m: "m = (r, d1)" by (cases m)
  show ?thesis
  proof (cases r)
    case (Inl e)
    with assms m show ?thesis by simp
  next
    case (Inr x)
    obtain r2 d2 where f: "f x = (r2, d2)" by (cases "f x")
    from assms m Inr f have "r2 = Inr y" "ds = d1 @ d2" by (simp_all add: andThen_Inr)
    with m Inr f that show ?thesis by blast
  qed
qed

lemma convertTsType_arguments:
  assumes "(case targs of
              Some args \<Rightarrow> andThen (collect (map convertTsType args)) (\<lambda>ts. ret (Some ts))
            | None \<Rightarrow> ret None) = (Inr ta, da)"
  shows "case targs of
           None \<Rightarrow> ta = None
         | Some args \<Rightarrow>
             \<exists>rs. ta = Some rs \<and> length rs = length args \<and>
                  (\<forall>i<length args. fst (convertTsType (args ! i)) = Inr (rs ! i))"
proof (cases targs)
  case None
  with assms show ?thesis by (simp add: ret_def)
next
  case (Some args)
  with assms have "andThen (collect (map convertTsType args)) (\<lambda>ts. ret (Some ts)) = (Inr ta, da)"
    by simp
  then obtain rs d1 d2 where c: "collect (map convertTsType args) = (Inr rs, d1)"
    and r: "ret (Some rs) = (Inr ta, d2)" by (rule andThen_eq_Inr)
  from r have "ta = Some rs" by (simp add: ret_def)
  with collect_Inr[OF c] Some show ?thesis by auto
qed

text \<open>
  Claim C4. For every resolved type descriptor \<^verbatim>\<open>convertTsType\<close> returns a type: the
  names \<^verbatim>\<open>number\<close>, \<^verbatim>\<open>string\<close>, \<^verbatim>\<open>boolean\<close> and \<^verbatim>\<open>void\<close> give \<open>Int32\<close>, \<open>String\<close>,
  \<open>Boolean\<close> and \<open>Void\<close>; the name \<^verbatim>\<open>Array\<close> gives \<open>Array\<close> with no class name; any
  other name gives \<open>Class\<close> with the normalized name; and the type arguments of an
  \<open>Array\<close> or \<open>Class\<close> are the lowered arguments of the descriptor, one for one in the
  declared order, absent when the descriptor has none. An array of strings and
  \<^verbatim>\<open>Foo<Bar>\<close> lower as the specification says.
\<close>

theorem convertTsType_mapping:
  assumes "resolved t"
  shows "\<exists>n r ds. typeText t = ret n \<and> convertTsType t = (Inr r, ds)
     \<and> (n = ''number'' \<longrightarrow> r = KsType Int32 None None)
     \<and> (n = ''string'' \<longrightarrow> r = KsType String None None)
     \<and> (n = ''boolean'' \<longrightarrow> r = KsType Boolean None None)
     \<and> (n = ''void'' \<longrightarrow> r = KsType Void None None)
     \<and> (n \<notin> set [''number'', ''string'', ''boolean'', ''void''] \<longrightarrow>
          (n = ''Array'' \<longrightarrow> ks_type r = Array \<and> ks_className r = None)
        \<and> (n \<noteq> ''Array'' \<longrightarrow>
             ks_type r = Class \<and> (\<exists>cn dn. nameToKS n = (Inr cn, dn) \<and> ks_className r = Some cn))
        \<and> (case typeArguments t of
             None \<Rightarrow> ks_typeArguments r = None
           | Some args \<Rightarrow>
               \<exists>rs. ks_typeArguments r = Some rs \<and> length rs = length args \<and>
                    (\<forall>i<length args. fst (convertTsType (args ! i)) = Inr (rs ! i))))
     \<and> convertTsType (TsType None (Some ''Array'') (Some [TsType (Some ''string'') None None]))
         = (Inr (KsType Array None (Some [KsType String None None])), [])
     \<and> convertTsType (TsType None (Some ''Foo'') (Some [TsType None (Some ''Bar'') None]))
         = (Inr (KsType Class (Some ''foo'') (Some [KsType Class (Some ''bar'') None])), [])"
proof -
  from typeText_resolved[OF assms] obtain n where n: "typeText t = ret n" by blast
  from convertTsType_total[OF assms] obtain r ds where r: "convertTsType t = (Inr r, ds)" by blast
  note eq = convertTsType_primitive[OF n]
  have prim: "n = ''number'' \<longrightarrow> r = KsType Int32 None None"
    "n = ''string'' \<longrightarrow> r = KsType String None None"
    "n = ''boolean'' \<longrightarrow> r = KsType Boolean None None"
    "n = ''void'' \<longrightarrow> r = KsType Void None None"
    using r eq by (auto simp: ret_def)
  have other: "(n = ''Array'' \<longrightarrow> ks_type r = Array \<and> ks_className r = None)
        \<and> (n \<noteq> ''Array'' \<longrightarrow>
             ks_type r = Class \<and> (\<exists>cn dn. nameToKS n = (Inr cn, dn) \<and> ks_className r = Some cn))
        \<and> (case typeArguments t of
             None \<Rightarrow> ks_typeArguments r = None
           | Some args \<Rightarrow>
               \<exists>rs. ks_typeArguments r = Some rs \<and> length rs = length args \<and>
                    (\<forall>i<length args. fst (convertTsType (args ! i)) = Inr (rs ! i)))"
    if np: "n \<notin> set [''number'', ''string'', ''boolean'', ''void'']"
  proof -
    from np eq r have "andThen (if n \<noteq> ''Array'' then andThen (nameToKS n) (\<lambda>n. ret (Some n))
                      else ret None) (\<lambda>className.
             andThen (case typeArguments t of
                        Some args \<Rightarrow>
                          andThen (collect (map convertTsType args)) (\<lambda>ts. ret (Some ts))
                      | None \<Rightarrow> ret None) (\<lambda>targs.
             ret (KsType (if n = ''Array'' then Array else Class) className targs))) = (Inr r, ds)"
      by simp
    then obtain cn d1 d2 where
      cn: "(if n \<noteq> ''Array'' then andThen (nameToKS n) (\<lambda>n. ret (Some n)) else ret None) = (Inr cn, d1)"
      and rest: "andThen (case typeArguments t of
                        Some args \<Rightarrow>
                          andThen (collect (map convertTsType args)) (\<lambda>ts. ret (Some ts))
                      | None \<Rightarrow> ret None) (\<lambda>targs.
             ret (KsType (if n = ''Array'' then Array else Class) cn targs)) = (Inr r, d2)"
      by (rule andThen_eq_Inr)
    from rest obtain ta d3 d4 where
      ta: "(case typeArguments t of
                        Some args \<Rightarrow>
                          andThen (collect (map convertTsType args)) (\<lambda>ts. ret (Some ts))
                      | None \<Rightarrow> ret None) = (Inr ta, d3)"
      and k: "ret (KsType (if n = ''Array'' then Array else Class) cn ta) = (Inr r, d4)"
      by (rule andThen_eq_Inr)
    from k have rk: "r = KsType (if n = ''Array'' then Array else Class) cn ta"
      by (simp add: ret_def)
    have c1: "n = ''Array'' \<longrightarrow> cn = None" using cn by (auto simp: ret_def)
    have c2: "n \<noteq> ''Array'' \<longrightarrow> (\<exists>c dn. nameToKS n = (Inr c, dn) \<and> cn = Some c)"
      using cn by (auto simp: ret_def nameToKS_eq andThen_Inr)
    from convertTsType_arguments[OF ta] rk c1 c2 show ?thesis
      by (auto split: option.splits)
  qed
  have ex1: "convertTsType (TsType None (Some ''Array'') (Some [TsType (Some ''string'') None None]))
         = (Inr (KsType Array None (Some [KsType String None None])), [])"
    by code_simp
  have ex2: "convertTsType (TsType None (Some ''Foo'') (Some [TsType None (Some ''Bar'') None]))
         = (Inr (KsType Class (Some ''foo'') (Some [KsType Class (Some ''bar'') None])), [])"
    by code_simp
  show ?thesis
  proof (intro exI conjI)
    show "typeText t = ret n" by (rule n)
    show "convertTsType t = (Inr r, ds)" by (rule r)
    show "n \<notin> set [''number'', ''string'', ''boolean'', ''void''] \<longrightarrow>
          (n = ''Array'' \<longrightarrow> ks_type r = Array \<and> ks_className r = None)
        \<and> (n \<noteq> ''Array'' \<longrightarrow>
             ks_type r = Class \<and> (\<exists>cn dn. nameToKS n = (Inr cn, dn) \<and> ks_className r = Some cn))
        \<and> (case typeArguments t of
             None \<Rightarrow> ks_typeArguments r = None
           | Some args \<Rightarrow>
               \<exists>rs. ks_typeArguments r = Some rs \<and> length rs = length args \<and>
                    (\<forall>i<length args. fst (convertTsType (args ! i)) = Inr (rs ! i)))"
      using other by (rule impI)
  qed (rule prim ex1 ex2)+
qed


theorem convertTsType_mapping_witness:
  "resolved (TsType None (Some ''Foo'') (Some [TsType (Some ''number'') None None]))
   \<and> (\<exists>r ds. convertTsType (TsType None (Some ''Foo'') (Some [TsType (Some ''number'') None None]))
               = (Inr r, ds)
             \<and> ks_type r = Class \<and> ks_className r = Some ''foo''
             \<and> ks_typeArguments r = Some [KsType Int32 None None])"
proof -
  let ?a = "TsType (Some ''number'') None None"
  let ?t = "TsType None (Some ''Foo'') (Some [?a])"
  have h: "resolved ?t" by simp
  have f: "nameToKS ''Foo'' = (Inr ''foo'', [])" by code_simp
  have g: "convertTsType ?a = (Inr (KsType Int32 None None), [])" by code_simp
  have tt: "typeText ?t = ret ''Foo''" by (simp add: typeText_def)
  have np: "''Foo'' \<notin> set [''number'', ''string'', ''boolean'', ''void'']" "''Foo'' \<noteq> ''Array''"
    by simp_all
  from convertTsType_mapping[OF h] show ?thesis
  proof (elim exE conjE)
    fix n r ds
    assume n: "typeText ?t = ret n" and r: "convertTsType ?t = (Inr r, ds)"
    and o: "n \<notin> set [''number'', ''string'', ''boolean'', ''void''] \<longrightarrow>
          (n = ''Array'' \<longrightarrow> ks_type r = Array \<and> ks_className r = None)
        \<and> (n \<noteq> ''Array'' \<longrightarrow>
             ks_type r = Class \<and> (\<exists>cn dn. nameToKS n = (Inr cn, dn) \<and> ks_className r = Some cn))
        \<and> (case typeArguments ?t of
             None \<Rightarrow> ks_typeArguments r = None
           | Some args \<Rightarrow>
               \<exists>rs. ks_typeArguments r = Some rs \<and> length rs = length args \<and>
                    (\<forall>i<length args. fst (convertTsType (args ! i)) = Inr (rs ! i)))"
    from n tt have nf: "n = ''Foo''" by (simp only: ret_def prod.inject sum.inject)
    note o1 = o[rule_format, OF np(1)[folded nf]]
    note c = o1[THEN conjunct2, THEN conjunct1, rule_format, OF np(2)[folded nf]]
    note a = o1[THEN conjunct2, THEN conjunct2]
    note c1 = c[THEN conjunct1] and c2 = c[THEN conjunct2]
    from c2 obtain cn dn where "nameToKS n = (Inr cn, dn)" "ks_className r = Some cn"
      by (elim exE conjE)
    with f nf have cn: "ks_className r = Some ''foo''" by (simp only: prod.inject sum.inject)
    from a obtain rs where rs: "ks_typeArguments r = Some rs" "length rs = length [?a]"
      "\<forall>i<length [?a]. fst (convertTsType ([?a] ! i)) = Inr (rs ! i)"
      unfolding TsType.sel option.case by (elim exE conjE)
    have "fst (convertTsType ([?a] ! 0)) = Inr (rs ! 0)"
      by (rule rs(3)[rule_format]) simp
    with g have "rs ! 0 = KsType Int32 None None"
      by (simp only: nth_Cons_0 fst_conv sum.inject)
    moreover from rs(2) obtain x where "rs = [x]" by (cases rs) simp_all
    ultimately have "rs = [KsType Int32 None None]" by simp
    with rs(1) have ta: "ks_typeArguments r = Some [KsType Int32 None None]" by simp
    show ?thesis
      by (intro conjI exI) (rule h r c1 cn ta)+
  qed
qed

section \<open>Expression lowering\<close>

lemma collect_append:
  "collect (ms @ ns) =
     andThen (collect ms) (\<lambda>xs. andThen (collect ns) (\<lambda>ys. ret (xs @ ys)))"
  by (induction ms) (simp_all add: andThen_assoc)

lemma collect_around:
  assumes "collect ms = (Inr xs, dx)" and "m = (Inr y, d)" and "collect ns = (Inr ys, dy)"
  shows "collect (ms @ m # ns) = (Inr (xs @ y # ys), dx @ d @ dy)"
  using assms by (simp add: collect_append andThen_Inr ret_def)

lemma convertOtherKind_unsupported:
  assumes "toLowerCase k \<noteq> ''thiskeyword''" and "toLowerCase k \<noteq> ''superkeyword''"
  shows "convertOtherKind k = (Inr Null, [unexpectedExpression k])"
  using assms by (simp add: convertOtherKind_def logNodeError_def andThen_Inr ret_def)




lemma convertVariableDeclaration_Some:
  "convertVariableDeclaration (Some d) =
     andThen (convertExpression (decl_initializer d))
       (\<lambda>i. ret (ks_VariableDeclaration (decl_name d) i))"
  by (cases d) (simp add: convertVariableDeclaration_def)

lemma collect_map_andThen:
  "collect (map (\<lambda>x. andThen (f x) (\<lambda>y. ret (g x y))) xs) =
     andThen (collect (map f xs)) (\<lambda>ys. ret (map2 g xs ys))"
  by (induction xs) (simp_all add: andThen_assoc)


section \<open>Which lowerings return\<close>

lemma isOK_ret [simp]: "isOK (ret x)"
  by (simp add: isOK_def ret_def)

lemma isOK_throw [simp]: "\<not> isOK (throw e)"
  by (simp add: isOK_def throw_def)

lemma isOK_pair [simp]: "isOK (Inr x, ds)" "\<not> isOK (Inl e, ds)"
  by (simp_all add: isOK_def)

lemma isOK_logNodeError [simp]: "isOK (logNodeError m)"
  by (simp add: isOK_def logNodeError_def)

lemma isOK_iff: "isOK m \<longleftrightarrow> (\<exists>x. m = (Inr x, snd m))"
  by (cases m) (auto simp: isOK_def split: sum.splits)

lemma isOK_andThen:
  "isOK (andThen m f) \<longleftrightarrow> isOK m \<and> (\<forall>x. fst m = Inr x \<longrightarrow> isOK (f x))"
  by (cases m) (auto simp: isOK_def andThen_def split: sum.splits prod.splits)

lemma isOK_andThen_const:
  assumes "\<And>x. isOK (f x) = b"
  shows "isOK (andThen m f) \<longleftrightarrow> isOK m \<and> b"
proof (cases "isOK m")
  case True
  then obtain x where "m = (Inr x, snd m)" by (auto simp: isOK_iff)
  then have "fst m = Inr x" by (metis fst_conv)
  with True show ?thesis by (simp add: isOK_andThen assms)
next
  case False
  then show ?thesis by (simp add: isOK_andThen)
qed






lemma convertExpression_None [simp]: "isOK (convertExpression None)"
  by simp

lemma convertBlock_None [simp]: "isOK (convertBlock None)"
  by simp






section \<open>Which statements return\<close>

lemma convertInitializer_isOK:
  "isOK (convertInitializer i) \<longleftrightarrow>
     (case i of
        None \<Rightarrow> False
      | Some (VariableDeclarationList ds) \<Rightarrow>
          (case ds of [] \<Rightarrow> False | d # _ \<Rightarrow> isOK (convertExpression (decl_initializer d)))
      | Some (OtherInitializer _) \<Rightarrow> True)"
  by (auto simp: convertInitializer_def convertVariableDeclaration_def index_def
        isOK_andThen_const split: option.splits ForInitializer.splits list.splits
        VariableDeclaration.splits)











section \<open>Statement lowering\<close>

lemma convertStatement_Some:
  "convertStatement (Some s) = (Inr r, ds) \<Longrightarrow> \<exists>l. r = Some l"
  by (cases s) (auto simp: returnStmts_def ret_def elim!: andThen_eq_Inr)

lemma flattenArray_Some: "flattenArray (map Some ls) = concat ls"
  by (simp add: flattenArray_def comp_def)

lemma collect_convertStatement:
  assumes "collect (map (\<lambda>x. convertStatement (Some x)) stmts) = (Inr arrays, ds)"
  shows "\<exists>ls. arrays = map Some ls"
proof -
  from collect_Inr[OF assms] have len: "length arrays = length stmts"
    and nth: "\<forall>i<length stmts. fst (convertStatement (Some (stmts ! i))) = Inr (arrays ! i)"
    by simp_all
  have "\<forall>a\<in>set arrays. \<exists>l. a = Some l"
  proof
    fix a assume "a \<in> set arrays"
    then obtain i where i: "i < length arrays" "a = arrays ! i" by (auto simp: in_set_conv_nth)
    with len nth have "fst (convertStatement (Some (stmts ! i))) = Inr a" by simp
    then have "convertStatement (Some (stmts ! i)) = (Inr a, snd (convertStatement (Some (stmts ! i))))"
      by (metis prod.collapse)
    from convertStatement_Some[OF this] show "\<exists>l. a = Some l" .
  qed
  then have "arrays = map Some (map the arrays)"
    by (induction arrays) auto
  then show ?thesis ..
qed

lemma convertStatement_unsupported_eq:
  "unsupportedStatement s \<Longrightarrow>
     convertStatement (Some s) = (Inr (Some [Null]), [unexpectedStatement (kindName_of s)])"
  by (cases s) (simp_all add: unsupportedStatement_def logNodeError_def andThen_Inr ret_def
      returnStmts_def)

lemma convertBlock_Block:
  assumes "collect (map (\<lambda>x. convertStatement (Some x)) stmts) = (Inr arrays, ds)"
  shows "convertBlock (Some (Block stmts)) = (Inr (Obj (KsBlock (Some (flattenArray arrays)))), ds)"
  using assms by (simp add: andThen_Inr ret_def)


lemma flattenArray_append:
  "flattenArray (xs @ ys) = flattenArray xs @ flattenArray ys"
  by (simp add: flattenArray_def)

text \<open>
  Claim C1, as the code has it. A statement outside the grammar is reported with one
  diagnostic and is not dropped: \<^verbatim>\<open>convertStatement\<close> returns the one-element sequence
  \<^verbatim>\<open>[null]\<close>, and the statement list of the enclosing block holds \<^verbatim>\<open>null\<close> at the
  position of the statement, between the entries of its neighbours.
\<close>

theorem convertStatement_unsupported:
  assumes s: "unsupportedStatement s"
    and xs: "collect (map (\<lambda>x. convertStatement (Some x)) xs) = (Inr ax, dx)"
    and ys: "collect (map (\<lambda>x. convertStatement (Some x)) ys) = (Inr ay, dy)"
  shows "convertStatement (Some s) = (Inr (Some [Null]), [unexpectedStatement (kindName_of s)])
     \<and> convertBlock (Some (Block (xs @ s # ys)))
         = (Inr (Obj (KsBlock (Some (flattenArray ax @ Null # flattenArray ay)))),
            dx @ [unexpectedStatement (kindName_of s)] @ dy)"
proof -
  note u = convertStatement_unsupported_eq[OF s]
  have "collect (map (\<lambda>x. convertStatement (Some x)) (xs @ s # ys))
          = (Inr (ax @ Some [Null] # ay), dx @ [unexpectedStatement (kindName_of s)] @ dy)"
    using collect_around[OF xs u ys] by simp
  from convertBlock_Block[OF this]
  have "convertBlock (Some (Block (xs @ s # ys)))
         = (Inr (Obj (KsBlock (Some (flattenArray ax @ Null # flattenArray ay)))),
            dx @ [unexpectedStatement (kindName_of s)] @ dy)"
    by (simp add: flattenArray_def)
  with u show ?thesis by (rule conjI)
qed

theorem convertStatement_unsupported_witness:
  "unsupportedStatement (OtherStatement ''BreakStatement'')
   \<and> convertStatement (Some (OtherStatement ''BreakStatement''))
       = (Inr (Some [Null]), [unexpectedStatement ''BreakStatement''])
   \<and> convertBlock (Some (Block [ReturnStatement None, OtherStatement ''BreakStatement'']))
       = (Inr (Obj (KsBlock (Some [Obj (ks_Return Undefined), Null]))),
          [unexpectedStatement ''BreakStatement''])"
proof -
  have s: "unsupportedStatement (OtherStatement ''BreakStatement'')"
    by (simp add: unsupportedStatement_def)
  have xs: "collect (map (\<lambda>x. convertStatement (Some x)) [ReturnStatement None])
              = (Inr [Some [Obj (ks_Return Undefined)]], [])"
    by (simp add: ret_def andThen_Inr returnStmts_def)
  have ys: "collect (map (\<lambda>x. convertStatement (Some x)) []) = (Inr [], [])"
    by (simp add: ret_def)
  have k: "kindName_of (OtherStatement ''BreakStatement'') = ''BreakStatement''"
    by (simp add: kindName_of_def)
  have f: "flattenArray [Some [Obj (ks_Return Undefined)]] @ Null # flattenArray []
             = [Obj (ks_Return Undefined), Null :: KsStatement jsval]"
    by (simp add: flattenArray_def)
  have l: "[ReturnStatement None] @ OtherStatement ''BreakStatement'' # []
             = [ReturnStatement None, OtherStatement ''BreakStatement'']"
    by simp
  note t = convertStatement_unsupported[OF s xs ys, unfolded k f l append_Nil append_Nil2]
  show ?thesis
    by (intro conjI) (rule s t[THEN conjunct1] t[THEN conjunct2])+
qed

text \<open>
  The sentence of the specification does not hold: the sequence returned for a
  \<^verbatim>\<open>break\<close> statement is not empty, and a block with that statement does not lower to
  what the block without it lowers to.
\<close>

theorem convertStatement_unsupported_counterexample:
  "fst (convertStatement (Some (OtherStatement ''BreakStatement''))) \<noteq> Inr (Some [])
   \<and> fst (convertBlock (Some (Block [OtherStatement ''BreakStatement''])))
       \<noteq> fst (convertBlock (Some (Block [])))"
  by (simp add: logNodeError_def andThen_Inr ret_def returnStmts_def flattenArray_def)

text \<open>
  Where every initializer lowers, a variable statement lowers to one \<open>Variable\<close>
  statement for each declarator, in the order of declaration, each with the name of its
  declarator and its lowered initializer; \<^verbatim>\<open>let a = 1, b = 2;\<close> in a block gives the two
  siblings in that order.
\<close>

lemma convertStatement_variable_lowered:
  assumes "collect (map (\<lambda>d. convertExpression (decl_initializer d)) declarations) = (Inr inits, ds)"
  shows "convertStatement (Some (VariableStatement declarations))
           = (Inr (Some (map2 (\<lambda>d i. Obj (ks_Variable (ks_VariableDeclaration (decl_name d) i)))
                           declarations inits)), ds)
       \<and> length (map2 (\<lambda>d i. Obj (ks_Variable (ks_VariableDeclaration (decl_name d) i)))
                      declarations inits) = length declarations
       \<and> convertBlock (Some (Block [VariableStatement
            [VariableDeclaration ''a'' (Some (NumericLiteral ''1'')),
             VariableDeclaration ''b'' (Some (NumericLiteral ''2''))]]))
           = (Inr (Obj (KsBlock (Some
                [Obj (ks_Variable (ks_VariableDeclaration ''a'' (Obj (ks_Literal ''numeric'' ''1'')))),
                 Obj (ks_Variable (ks_VariableDeclaration ''b'' (Obj (ks_Literal ''numeric'' ''2''))))]))),
              [])"
proof -
  from collect_Inr[OF assms] have len: "length inits = length declarations" by simp
  have "collect (map (\<lambda>x. convertVariableDeclaration (Some x)) declarations)
          = (Inr (map2 (\<lambda>d i. ks_VariableDeclaration (decl_name d) i) declarations inits), ds)"
    by (simp add: convertVariableDeclaration_Some collect_map_andThen assms andThen_Inr)
      (simp add: ret_def)
  then have 1: "convertStatement (Some (VariableStatement declarations))
           = (Inr (Some (map2 (\<lambda>d i. Obj (ks_Variable (ks_VariableDeclaration (decl_name d) i)))
                           declarations inits)), ds)"
    by (auto simp: andThen_Inr ret_def returnStmts_def)
  have 2: "length (map2 (\<lambda>d i. Obj (ks_Variable (ks_VariableDeclaration (decl_name d) i)))
                      declarations inits) = length declarations"
    using len by simp
  have 3: "convertBlock (Some (Block [VariableStatement
            [VariableDeclaration ''a'' (Some (NumericLiteral ''1'')),
             VariableDeclaration ''b'' (Some (NumericLiteral ''2''))]]))
           = (Inr (Obj (KsBlock (Some
                [Obj (ks_Variable (ks_VariableDeclaration ''a'' (Obj (ks_Literal ''numeric'' ''1'')))),
                 Obj (ks_Variable (ks_VariableDeclaration ''b'' (Obj (ks_Literal ''numeric'' ''2''))))]))),
              [])"
    by (simp add: convertVariableDeclaration_def andThen_Inr ret_def returnStmts_def
        flattenArray_def)
  show ?thesis by (intro conjI) (rule 1 2 3)+
qed

text \<open>
  Claim C7 fails on the code. The initializer \<^verbatim>\<open>new Foo\<close> has no argument list, line 121
  reads \<^verbatim>\<open>newExpr.arguments.map\<close>, and the \<^verbatim>\<open>TypeError\<close> ends \<^verbatim>\<open>convertStatement\<close> on
  \<^verbatim>\<open>let a = new Foo;\<close> before any \<open>Variable\<close> statement is returned.
\<close>

theorem convertStatement_variable_throws:
  "convertStatement (Some (VariableStatement
      [VariableDeclaration ''a'' (Some (NewExpression (Identifier ''Foo'') None))]))
     = (Inl (TypeError ''map''), [])"
  by (simp add: convertVariableDeclaration_def throw_def ret_def andThen_Inr)

section \<open>Blocks and loops\<close>

lemma convertBlock_bare:
  "\<not> hasStatements s \<Longrightarrow>
     convertBlock (Some s) = andThen (convertStatement (Some s)) (\<lambda>stmts. ret (Obj (KsBlock stmts)))"
  by (cases s) (simp_all add: hasStatements_def)

text \<open>
  Where the statements lower, \<^verbatim>\<open>convertBlock\<close> returns a block in both forms. For a
  brace-delimited sequence the statement list of the block is the concatenation of the
  sequences the statements lower to, in order. For a bare statement the statement list
  is the sequence that statement lowers to.
\<close>

lemma convertBlock_uniform_lowered:
  assumes stmts: "collect (map (\<lambda>x. convertStatement (Some x)) stmts) = (Inr arrays, ds)"
    and bare: "\<not> hasStatements s"
    and s: "convertStatement (Some s) = (Inr r, d)"
  shows "(\<exists>ls. arrays = map Some ls \<and> length ls = length stmts
            \<and> (\<forall>i<length stmts. fst (convertStatement (Some (stmts ! i))) = Inr (Some (ls ! i)))
            \<and> convertBlock (Some (Block stmts)) = (Inr (Obj (KsBlock (Some (concat ls)))), ds))
       \<and> (\<exists>l. r = Some l \<and> convertBlock (Some s) = (Inr (Obj (KsBlock (Some l))), d))"
proof -
  from collect_convertStatement[OF stmts] obtain ls where ls: "arrays = map Some ls" ..
  from collect_Inr[OF stmts] have len: "length arrays = length stmts"
    and nth: "\<forall>i<length stmts. fst (convertStatement (Some (stmts ! i))) = Inr (arrays ! i)"
    by simp_all
  have 1: "length ls = length stmts" using len ls by simp
  have 2: "\<forall>i<length stmts. fst (convertStatement (Some (stmts ! i))) = Inr (Some (ls ! i))"
    using nth ls 1 by simp
  have 3: "convertBlock (Some (Block stmts)) = (Inr (Obj (KsBlock (Some (concat ls)))), ds)"
    using convertBlock_Block[OF stmts] by (simp add: ls flattenArray_Some)
  from convertStatement_Some[OF s] obtain l where l: "r = Some l" ..
  have 4: "convertBlock (Some s) = (Inr (Obj (KsBlock (Some l))), d)"
    by (simp add: convertBlock_bare[OF bare] s l andThen_Inr ret_def)
  from ls 1 2 3 l 4 show ?thesis by blast
qed

section \<open>Bodies that end the conversion\<close>

text \<open>
  Claim C9 fails on the code. \<^verbatim>\<open>convertInitializer\<close> reads \<^verbatim>\<open>initializer.kind\<close> before any
  test, so a \<^verbatim>\<open>for\<close> statement without an initializer ends the whole conversion with a
  \<^verbatim>\<open>TypeError\<close>, whatever its condition, incrementor and body.
\<close>

theorem convertStatement_for_without_initializer:
  "convertStatement (Some (ForStatement None condition incrementor statement))
     = (Inl (TypeError ''kind''), [])
   \<and> convertBlock (Some (Block (ForStatement None condition incrementor statement # rest)))
     = (Inl (TypeError ''kind''), [])"
  by (simp add: convertInitializer_def throw_def)

text \<open>
  Claim C8 fails on the code. A present body node does not always give a block: the
  body \<^verbatim>\<open>{ for (;;) { } }\<close> and the bare body \<^verbatim>\<open>for (;;) { }\<close> end \<^verbatim>\<open>convertBlock\<close> with the
  \<^verbatim>\<open>TypeError\<close> of \<^verbatim>\<open>convertInitializer\<close>, and the bare body \<^verbatim>\<open>new Foo;\<close> ends it with the
  \<^verbatim>\<open>TypeError\<close> of line 121.
\<close>

theorem convertBlock_throws:
  "convertBlock (Some (Block [ForStatement None None None (Block [])]))
     = (Inl (TypeError ''kind''), [])
   \<and> convertBlock (Some (ForStatement None None None (Block [])))
     = (Inl (TypeError ''kind''), [])
   \<and> convertBlock (Some (ExpressionStatement (NewExpression (Identifier ''Foo'') None)))
     = (Inl (TypeError ''map''), [])"
  by (simp add: convertInitializer_def throw_def ret_def andThen_Inr)

section \<open>The schema of a class\<close>

lemma forEach_append:
  "forEach (xs @ ys) body s = andThen (forEach xs body s) (forEach ys body)"
proof (induction xs arbitrary: s)
  case Nil
  show ?case by simp
next
  case (Cons x xs)
  have "forEach (xs @ ys) body = (\<lambda>s. andThen (forEach xs body s) (forEach ys body))"
    by (rule ext) (rule Cons.IH)
  then show ?case by (simp add: andThen_assoc)
qed

lemma forEach_map: "forEach (map g xs) body s = forEach xs (\<lambda>x. body (g x)) s"
proof (induction xs arbitrary: s)
  case Nil
  show ?case by simp
next
  case (Cons x xs)
  have "forEach (map g xs) body = forEach xs (\<lambda>x. body (g x))"
    by (rule ext) (rule Cons.IH)
  then show ?case by simp
qed

lemma forEach_preserves:
  assumes step: "\<And>x s s' d. body x s = (Inr s', d) \<Longrightarrow> P s \<Longrightarrow> P s'"
  shows "forEach xs body s = (Inr s', d) \<Longrightarrow> P s \<Longrightarrow> P s'"
proof (induction xs arbitrary: s d)
  case Nil
  then show ?case by (simp add: ret_def)
next
  case (Cons x xs)
  from Cons.prems(1) have "andThen (body x s) (forEach xs body) = (Inr s', d)" by simp
  then obtain s1 d1 d2 where b: "body x s = (Inr s1, d1)"
    and r: "forEach xs body s1 = (Inr s', d2)" by (rule andThen_eq_Inr)
  from step[OF b Cons.prems(2)] have "P s1" .
  from Cons.IH[OF r this] show ?case .
qed

lemma forEach_preserves_on:
  assumes step: "\<And>x s s' d. x \<in> set xs \<Longrightarrow> body x s = (Inr s', d) \<Longrightarrow> P s \<Longrightarrow> P s'"
  shows "forEach xs body s = (Inr s', d) \<Longrightarrow> P s \<Longrightarrow> P s'"
  using step
proof (induction xs arbitrary: s d)
  case Nil
  then show ?case by (simp add: ret_def)
next
  case (Cons x xs)
  from Cons.prems(1) have "andThen (body x s) (forEach xs body) = (Inr s', d)" by simp
  then obtain s1 d1 d2 where b: "body x s = (Inr s1, d1)"
    and r: "forEach xs body s1 = (Inr s', d2)" by (rule andThen_eq_Inr)
  from Cons.prems(3)[OF _ b Cons.prems(2)] have s1: "P s1" by simp
  show ?case
  proof (rule Cons.IH[OF r s1])
    fix y t t' e
    assume "y \<in> set xs" "body y t = (Inr t', e)" "P t"
    then show "P t'" using Cons.prems(3)[of y t t' e] by simp
  qed
qed

lemma createSchema_constructor_take:
  "createSchema_constructor (take (Suc 0) constructors) = createSchema_constructor constructors"
  by (rule ext) (cases constructors; simp add: createSchema_constructor_def)

lemma createSchema_constructor_result:
  assumes "createSchema_constructor constructors classSchema = (Inr cls, d)"
  shows "case constructors of
           [] \<Rightarrow> cls = classSchema
         | first # others \<Rightarrow>
             \<exists>ps dp b db. collect (map convertParameter (ctor_getParameters first)) = (Inr ps, dp)
               \<and> convertBody (ctor_getBody first) = (Inr b, db)
               \<and> cls = classSchema\<lparr>class_constructor :=
                          Some \<lparr>ctor_parameters = ps, ctor_body = b\<rparr>\<rparr>"
proof (cases constructors)
  case Nil
  with assms show ?thesis by (simp add: createSchema_constructor_def ret_def)
next
  case (Cons first others)
  with assms have "andThen (collect (map convertParameter (ctor_getParameters first)))
      (\<lambda>parameters. andThen (convertBody (ctor_getBody first)) (\<lambda>body.
        ret (classSchema\<lparr>class_constructor :=
               Some \<lparr>ctor_parameters = parameters, ctor_body = body\<rparr>\<rparr>))) = (Inr cls, d)"
    by (simp add: createSchema_constructor_def)
  then obtain ps dp d2 where ps: "collect (map convertParameter (ctor_getParameters first)) = (Inr ps, dp)"
    and r: "andThen (convertBody (ctor_getBody first)) (\<lambda>body.
        ret (classSchema\<lparr>class_constructor :=
               Some \<lparr>ctor_parameters = ps, ctor_body = body\<rparr>\<rparr>)) = (Inr cls, d2)"
    by (rule andThen_eq_Inr)
  from r obtain b db d3 where b: "convertBody (ctor_getBody first) = (Inr b, db)"
    and c: "ret (classSchema\<lparr>class_constructor :=
               Some \<lparr>ctor_parameters = ps, ctor_body = b\<rparr>\<rparr>) = (Inr cls, d3)"
    by (rule andThen_eq_Inr)
  from c have "cls = classSchema\<lparr>class_constructor :=
               Some \<lparr>ctor_parameters = ps, ctor_body = b\<rparr>\<rparr>" by (simp add: ret_def)
  with ps b Cons show ?thesis by auto
qed

lemma createSchema_field_constructor:
  "createSchema_field tsProp classSchema = (Inr cls, d) \<Longrightarrow>
     class_constructor cls = class_constructor classSchema"
  by (auto simp: createSchema_field_def ret_def split: if_splits elim!: andThen_eq_Inr)

lemma createSchema_method_constructor:
  "createSchema_method tsMethod classSchema = (Inr cls, d) \<Longrightarrow>
     class_constructor cls = class_constructor classSchema"
  by (auto simp: createSchema_method_def ret_def elim!: andThen_eq_Inr)

lemma createSchema_classSchema_result:
  assumes "createSchema_classSchema tsClass = (Inr cls, d)"
  shows "case class_getConstructors tsClass of
           [] \<Rightarrow> class_constructor cls = None
         | first # others \<Rightarrow>
             \<exists>ps dp b db. collect (map convertParameter (ctor_getParameters first)) = (Inr ps, dp)
               \<and> convertBody (ctor_getBody first) = (Inr b, db)
               \<and> class_constructor cls = Some \<lparr>ctor_parameters = ps, ctor_body = b\<rparr>"
proof -
  let ?init = "\<lparr>class_fields = Map.empty, class_methods = Map.empty, class_constructor = None\<rparr>"
  from assms obtain c1 d1 d2 where
    f: "forEach (class_getInstanceProperties tsClass) createSchema_field ?init = (Inr c1, d1)"
    and r: "andThen (forEach (class_getInstanceMethods tsClass) createSchema_method c1)
              (\<lambda>classSchema. createSchema_constructor (class_getConstructors tsClass) classSchema)
            = (Inr cls, d2)"
    unfolding createSchema_classSchema_def by (rule andThen_eq_Inr)
  from r obtain c2 d3 d4 where
    m: "forEach (class_getInstanceMethods tsClass) createSchema_method c1 = (Inr c2, d3)"
    and k: "createSchema_constructor (class_getConstructors tsClass) c2 = (Inr cls, d4)"
    by (rule andThen_eq_Inr)
  have "class_constructor c1 = None"
    by (rule forEach_preserves[where P="\<lambda>c. class_constructor c = None", OF _ f])
       (simp_all add: createSchema_field_constructor)
  then have "class_constructor c2 = None"
    by (rule forEach_preserves[where P="\<lambda>c. class_constructor c = None", OF _ m, rotated])
       (simp add: createSchema_method_constructor)
  with createSchema_constructor_result[OF k] show ?thesis
    by (auto split: list.splits)
qed


lemma createSchema_class_take:
  "createSchema_class (c\<lparr>class_getConstructors := take (Suc 0) (class_getConstructors c)\<rparr>)
     = createSchema_class c"
  by (rule ext)
     (simp add: createSchema_class_def createSchema_classSchema_def createSchema_constructor_take)

lemma createSchema_class_result:
  assumes "createSchema_class c schema = (Inr schema', d)"
  shows "\<exists>key dk cls dc. nameToKS (class_getName c) = (Inr key, dk)
           \<and> createSchema_classSchema c = (Inr cls, dc)
           \<and> schema' = schema\<lparr>classes := setProperty (classes schema) key cls\<rparr>"
  using assms by (auto simp: createSchema_class_def ret_def elim!: andThen_eq_Inr)

lemma createSchema_class_other_key:
  assumes "createSchema_class c schema = (Inr schema', d)"
    and "fst (nameToKS (class_getName c)) \<noteq> Inr key"
  shows "classes schema' key = classes schema key"
  using createSchema_class_result[OF assms(1)] assms(2) by (auto simp: setProperty_def)

lemma createSchema_classes_after:
  assumes "forEach after createSchema_class schema = (Inr schema', d)"
    and "\<forall>c\<in>set after. fst (nameToKS (class_getName c)) \<noteq> Inr key"
  shows "classes schema' key = classes schema key"
proof (rule forEach_preserves_on[where P="\<lambda>t. classes t key = classes schema key", OF _ assms(1)])
  fix c t t' e
  assume "c \<in> set after" "createSchema_class c t = (Inr t', e)" "classes t key = classes schema key"
  with assms(2) createSchema_class_other_key[of c t t' e key]
  show "classes t' key = classes schema key" by simp
qed simp

text \<open>
  The body of a constructor or method is the lowered block node behind \<^verbatim>\<open>getBody()\<close>.
\<close>

lemma convertBody_result:
  assumes "convertBody body = (Inr b, d)"
  shows "\<exists>node. body = Some node \<and> convertBlock (Some node) = (Inr b, d)"
  using assms by (cases body) (simp_all add: convertBody_def throw_def)

text \<open>
  What holds for every class whose normalized name is not \<^verbatim>\<open>__proto__\<close>. Dropping every
  constructor but the first from every class changes neither the schema nor the
  diagnostics. In the schema that \<^verbatim>\<open>createSchemaFromSourceFile\<close> returns, the entry of
  the class (when no later class normalizes to the same name) has no constructor when
  the class declares none, and otherwise the lowered parameters and the lowered block
  of the first constructor.
\<close>

lemma createSchema_first_constructor_retained:
  assumes run: "createSchemaFromSourceFile typeInfo = (Inr schema, ds)"
    and pos: "getClasses typeInfo = before @ tsClass # after"
    and key: "nameToKS (class_getName tsClass) = (Inr key, dk)"
    and proto: "key \<noteq> ''__proto__''"
    and last: "\<forall>c\<in>set after. fst (nameToKS (class_getName c)) \<noteq> Inr key"
  shows "createSchemaFromSourceFile
           (typeInfo\<lparr>getClasses :=
              map (\<lambda>c. c\<lparr>class_getConstructors := take 1 (class_getConstructors c)\<rparr>)
                  (getClasses typeInfo)\<rparr>)
         = createSchemaFromSourceFile typeInfo
       \<and> (\<exists>cls. classes schema key = Some cls \<and>
            (case class_getConstructors tsClass of
               [] \<Rightarrow> class_constructor cls = None
             | first # others \<Rightarrow>
                 \<exists>ps dp node b db.
                    collect (map convertParameter (ctor_getParameters first)) = (Inr ps, dp)
                  \<and> ctor_getBody first = Some node
                  \<and> convertBlock (Some node) = (Inr b, db)
                  \<and> class_constructor cls = Some \<lparr>ctor_parameters = ps, ctor_body = b\<rparr>))"
proof -
  have same: "createSchemaFromSourceFile
           (typeInfo\<lparr>getClasses :=
              map (\<lambda>c. c\<lparr>class_getConstructors := take 1 (class_getConstructors c)\<rparr>)
                  (getClasses typeInfo)\<rparr>)
         = createSchemaFromSourceFile typeInfo"
    by (simp add: createSchemaFromSourceFile_def forEach_map createSchema_class_take)
  from run obtain s0 d0 d1 where
    "forEach (getEnums typeInfo) createSchema_enum \<lparr>enums = Map.empty, classes = Map.empty\<rparr>
       = (Inr s0, d0)"
    and cl: "forEach (getClasses typeInfo) createSchema_class s0 = (Inr schema, d1)"
    unfolding createSchemaFromSourceFile_def by (rule andThen_eq_Inr)
  from cl have "andThen (forEach before createSchema_class s0)
                  (forEach (tsClass # after) createSchema_class) = (Inr schema, d1)"
    by (simp add: pos forEach_append)
  then obtain s1 d2 d3 where
    "forEach before createSchema_class s0 = (Inr s1, d2)"
    and r: "forEach (tsClass # after) createSchema_class s1 = (Inr schema, d3)"
    by (rule andThen_eq_Inr)
  from r have "andThen (createSchema_class tsClass s1) (forEach after createSchema_class)
                 = (Inr schema, d3)" by simp
  then obtain s2 d4 d5 where c: "createSchema_class tsClass s1 = (Inr s2, d4)"
    and a: "forEach after createSchema_class s2 = (Inr schema, d5)"
    by (rule andThen_eq_Inr)
  from createSchema_class_result[OF c] key obtain cls dc where
    cls: "createSchema_classSchema tsClass = (Inr cls, dc)"
    and s2: "s2 = s1\<lparr>classes := setProperty (classes s1) key cls\<rparr>" by auto
  from createSchema_classes_after[OF a last] s2 proto have entry: "classes schema key = Some cls"
    by (simp add: setProperty_def)
  have ctor: "case class_getConstructors tsClass of
               [] \<Rightarrow> class_constructor cls = None
             | first # others \<Rightarrow>
                 \<exists>ps dp node b db.
                    collect (map convertParameter (ctor_getParameters first)) = (Inr ps, dp)
                  \<and> ctor_getBody first = Some node
                  \<and> convertBlock (Some node) = (Inr b, db)
                  \<and> class_constructor cls = Some \<lparr>ctor_parameters = ps, ctor_body = b\<rparr>"
  proof (cases "class_getConstructors tsClass")
    case Nil
    with createSchema_classSchema_result[OF cls] show ?thesis by simp
  next
    case (Cons first others)
    with createSchema_classSchema_result[OF cls] obtain ps dp b db where
      ps: "collect (map convertParameter (ctor_getParameters first)) = (Inr ps, dp)"
      and b: "convertBody (ctor_getBody first) = (Inr b, db)"
      and k: "class_constructor cls = Some \<lparr>ctor_parameters = ps, ctor_body = b\<rparr>"
      by auto
    from convertBody_result[OF b] obtain node where
      "ctor_getBody first = Some node" "convertBlock (Some node) = (Inr b, db)" by blast
    with ps k Cons show ?thesis by auto
  qed
  from same entry ctor show ?thesis by blast
qed

text \<open>
  Claim C10 fails on the code. A class named \<^verbatim>\<open>__proto__\<close> normalizes to \<^verbatim>\<open>__proto__\<close>, and
  line 314 assigns its class object to \<^verbatim>\<open>schema.classes["__proto__"]\<close>, which replaces
  the prototype of \<^verbatim>\<open>schema.classes\<close> and adds no entry: the returned schema has no
  class, so the constructor the class declares is not retained. The same class under
  the name \<^verbatim>\<open>Proto\<close> keeps it.
\<close>

theorem createSchema_proto_class:
  "createSchemaFromSourceFile
     \<lparr>getEnums = [],
      getClasses =
        [\<lparr>class_getName = ''__proto__'', class_getInstanceProperties = [],
          class_getInstanceMethods = [],
          class_getConstructors =
            [\<lparr>ctor_getParameters = [], ctor_getBody = Some (Block [ReturnStatement None])\<rparr>]\<rparr>]\<rparr>
     = (Inr \<lparr>enums = Map.empty, classes = Map.empty\<rparr>, [])
   \<and> createSchemaFromSourceFile
     \<lparr>getEnums = [],
      getClasses =
        [\<lparr>class_getName = ''Proto'', class_getInstanceProperties = [],
          class_getInstanceMethods = [],
          class_getConstructors =
            [\<lparr>ctor_getParameters = [], ctor_getBody = Some (Block [ReturnStatement None])\<rparr>]\<rparr>]\<rparr>
     = (Inr \<lparr>enums = Map.empty,
             classes = [''proto'' \<mapsto>
               \<lparr>class_fields = Map.empty, class_methods = Map.empty,
                class_constructor =
                  Some \<lparr>ctor_parameters = [],
                        ctor_body = Obj (KsBlock (Some [Obj (ks_Return Undefined)]))\<rparr>\<rparr>]\<rparr>, [])"
proof -
  have p: "nameToKS ''__proto__'' = (Inr ''__proto__'', [])" by code_simp
  have q: "nameToKS ''Proto'' = (Inr ''proto'', [])" by code_simp
  have b: "convertBody (Some (Block [ReturnStatement None]))
             = (Inr (Obj (KsBlock (Some [Obj (ks_Return Undefined)]))), [])"
    by (simp add: convertBody_def andThen_Inr ret_def returnStmts_def flattenArray_def)
  show ?thesis
    by (simp add: createSchemaFromSourceFile_def createSchema_class_def
        createSchema_classSchema_def createSchema_constructor_def setProperty_def p q b
        andThen_Inr ret_def)
qed

end
